theory Spec2Isabelle
  imports Complex_Main
begin

section \<open>Choreography data\<close>

text \<open>
  A slide of the choreography file is a JSON object. It is kept as the list of its
  entries, in the order of the file, because both dispatchers walk the keys in that
  order. A value stored under a recognised key has that key's shape or is \<open>null\<close>.

  JavaScript numbers are modelled by the reals. Where the source can produce \<open>NaN\<close>
  (the time of an invalid \<open>Date\<close>, an undefined step) the number is a \<open>real option\<close>
  and \<open>None\<close> stands for \<open>NaN\<close>. A timestamp of the file is modelled by the \<open>Date\<close>
  that \<open>new Date(...)\<close> builds from it; a timestamp that is present is truthy.
\<close>

datatype date_value = InvalidDate | ValidDate int

datatype error = TypeError | Exception string

record extent =
  xmin :: real
  ymin :: real
  xmax :: real
  ymax :: real

record viewpoint =
  rotation :: real
  scale :: real
  targetGeometry :: extent

record ts_block =
  timeSliderStart :: "date_value option"
  timeSliderEnd :: "date_value option"
  timeSliderStep :: "real option"
  timeSliderUnit :: "string option"

record lv_block =
  layersOn :: "string list option"
  layersOff :: "string list option"

record track_block =
  trackLayerName :: string
  trackFieldName :: string

text \<open>
  A weather amount is \<open>Numeric r\<close> when \<open>Number(v)\<close> is the number \<open>r\<close>, and
  \<open>NonNumeric s\<close> when \<open>Number(v)\<close> is \<open>NaN\<close>.
\<close>

datatype weather_value = Numeric real | NonNumeric string

record lighting_block =
  lighting_type :: "string option"
  lighting_datetime :: "date_value option"
  lighting_displayUTCOffset :: "real option"

record weather_block =
  weather_type :: "string option"
  weather_cloudCover :: "weather_value option"
  weather_precipitation :: "weather_value option"

record env_block =
  env_lighting :: "lighting_block option"
  env_atmosphereEnabled :: "bool option"
  env_starsEnabled :: "bool option"
  env_weather :: "weather_block option"

datatype slide_value =
    Maps "int list"
  | Viewpoint viewpoint
  | TimeSlider ts_block
  | LayerVisibility lv_block
  | TrackRenderer track_block
  | Environment env_block
  | Null
  | Other

type_synonym slide = "(string \<times> slide_value) list"

definition slide_maps :: "slide \<Rightarrow> int list option" where
  "slide_maps s = (case map_of s ''maps'' of Some (Maps m) \<Rightarrow> Some m | _ \<Rightarrow> None)"

definition slide_timeSlider :: "slide \<Rightarrow> ts_block option" where
  "slide_timeSlider s =
     (case map_of s ''timeSlider'' of Some (TimeSlider b) \<Rightarrow> Some b | _ \<Rightarrow> None)"

definition slide_layerVisibility :: "slide \<Rightarrow> lv_block option" where
  "slide_layerVisibility s =
     (case map_of s ''layerVisibility'' of Some (LayerVisibility b) \<Rightarrow> Some b | _ \<Rightarrow> None)"

definition slide_environment :: "slide \<Rightarrow> env_block option" where
  "slide_environment s =
     (case map_of s ''environment'' of Some (Environment b) \<Rightarrow> Some b | _ \<Rightarrow> None)"

section \<open>Views, the time control and the console\<close>

text \<open>
  The mapping engine is an external collaborator. A view is the record of the
  properties the source reads and writes; \<open>goTo\<close> appends its target and its
  \<open>animate\<close> option to \<open>goTo_calls\<close>. The time control records its extents and
  stops; \<open>play()\<close> and \<open>stop()\<close> set \<open>playing\<close>, and \<open>ts_state\<close> is the state the
  widget reports when a handler reads it.
\<close>

record center_point =
  latitude :: "real option"
  lat :: "real option"

record layer =
  title :: string
  visible :: bool

record view_lighting =
  vl_type :: "string option"
  vl_date :: "date_value option"
  vl_datetime :: "date_value option"
  vl_displayUTCOffset :: "real option"

record view_weather =
  vw_type :: "string option"
  vw_cloudCover :: "weather_value option"
  vw_precipitation :: "weather_value option"

record view_environment =
  ve_lighting :: "view_lighting option"
  ve_atmosphereEnabled :: "bool option"
  ve_starsEnabled :: "bool option"
  ve_weather :: "view_weather option"

record view =
  view_type :: string
  view_viewpoint :: "viewpoint option"
  center :: "center_point option"
  layers :: "layer list"
  environment :: "view_environment option"
  goTo_calls :: "(viewpoint \<times> bool) list"

record time_control =
  fullTimeExtent :: "(date_value \<times> date_value) option"
  timeExtent :: "(date_value option \<times> date_value) option"
  stops :: "(real option \<times> string option) option"
  ts_state :: string
  playing :: bool

text \<open>
  A dispatch works on the view and the time control it was given (either may be
  \<open>null\<close>) and writes to the console.
\<close>

record world =
  w_view :: "view option"
  w_timeSlider :: "time_control option"
  console :: "(string \<times> error) list"

definition console_error :: "string \<Rightarrow> error \<Rightarrow> world \<Rightarrow> world" where
  "console_error msg e w = w\<lparr>console := console w @ [(msg, e)]\<rparr>"

section \<open>Numbers and dates\<close>

definition getTime :: "date_value \<Rightarrow> real option" where
  "getTime d = (case d of InvalidDate \<Rightarrow> None | ValidDate t \<Rightarrow> Some (real_of_int t))"

text \<open>\<open>new Date(v)\<close> for a timestamp of the file: an undefined one gives an invalid date.\<close>

definition Date_of :: "date_value option \<Rightarrow> date_value" where
  "Date_of v = (case v of None \<Rightarrow> InvalidDate | Some d \<Rightarrow> d)"

text \<open>
  \<open>new Date(x)\<close> for a number: the time value is cut to whole milliseconds, towards
  zero. (The range limit of \<open>Date\<close> is not modelled.)
\<close>

definition truncate_ms :: "real \<Rightarrow> int" where
  "truncate_ms x = (if 0 \<le> x then \<lfloor>x\<rfloor> else \<lceil>x\<rceil>)"

definition new_Date :: "real option \<Rightarrow> date_value" where
  "new_Date x = (case x of None \<Rightarrow> InvalidDate | Some r \<Rightarrow> ValidDate (truncate_ms r))"

definition js_binop :: "(real \<Rightarrow> real \<Rightarrow> real) \<Rightarrow> real option \<Rightarrow> real option \<Rightarrow> real option" where
  "js_binop f a b = (case a of None \<Rightarrow> None | Some x \<Rightarrow> (case b of None \<Rightarrow> None | Some y \<Rightarrow> Some (f x y)))"

definition Math_min :: "real option \<Rightarrow> real option \<Rightarrow> real option" where
  "Math_min = js_binop min"

definition Math_max :: "real option \<Rightarrow> real option \<Rightarrow> real option" where
  "Math_max = js_binop max"

definition Math_ceil :: "real option \<Rightarrow> real option" where
  "Math_ceil a = map_option (\<lambda>x. real_of_int \<lceil>x\<rceil>) a"

text \<open>\<open>interpolate\<close> of both continuous handlers: \<open>fromVal + (toVal - fromVal) * progress\<close>.\<close>

definition interpolate :: "real \<Rightarrow> real option \<Rightarrow> real option \<Rightarrow> real option" where
  "interpolate progress fromVal toVal =
     js_binop (+) fromVal (js_binop (*) (js_binop (-) toVal fromVal) (Some progress))"

section \<open>Continuous handlers (animateOnScroll.js)\<close>

definition unitToMs :: "(string \<times> real) list" where
  "unitToMs =
     [(''milliseconds'', 1),
      (''seconds'', 1000),
      (''minutes'', 60 * 1000),
      (''hours'', 60 * 60 * 1000),
      (''days'', 24 * 60 * 60 * 1000),
      (''weeks'', 7 * 24 * 60 * 60 * 1000),
      (''months'', 30 * 24 * 60 * 60 * 1000),
      (''years'', 365 * 24 * 60 * 60 * 1000)]"

text \<open>\<open>unitToMs[unit] || 0\<close>\<close>

definition unit_factor :: "string option \<Rightarrow> real" where
  "unit_factor unit =
     (case unit of
        None \<Rightarrow> 0
      | Some u \<Rightarrow> (case map_of unitToMs u of None \<Rightarrow> 0 | Some f \<Rightarrow> f))"

text \<open>
  The handler returns a value only on the early exit for a non-positive step; the
  whole body is inside \<open>try\<close>, so a missing block or a missing widget is logged.
\<close>

definition interpolateTimeSlider :: "slide \<Rightarrow> real \<Rightarrow> world \<Rightarrow> date_value option \<times> world" where
  "interpolateTimeSlider slideCurrent progress w =
     (case slide_timeSlider slideCurrent of
        None \<Rightarrow> (None, console_error ''Error setting time slider:'' TypeError w)
      | Some slideTimeData \<Rightarrow>
          (let startD = Date_of (timeSliderStart slideTimeData);
               endD = Date_of (timeSliderEnd slideTimeData);
               step = timeSliderStep slideTimeData;
               unit = timeSliderUnit slideTimeData;
               interpolatedTime = interpolate progress (getTime startD) (getTime endD);
               stepMs = js_binop (*) step (Some (unit_factor unit))
           in if (case stepMs of None \<Rightarrow> False | Some x \<Rightarrow> x \<le> 0)
              then (Some (new_Date (Math_min interpolatedTime (getTime endD))), w)
              else
                (let offset = js_binop (-) interpolatedTime (getTime startD);
                     snappedOffset = js_binop (*) (Math_ceil (js_binop (/) offset stepMs)) stepMs;
                     snappedTime = js_binop (+) (getTime startD) snappedOffset;
                     clampedTime = Math_min (Math_max snappedTime (getTime startD)) (getTime endD)
                 in (case w_timeSlider w of
                       None \<Rightarrow> (None, console_error ''Error setting time slider:'' TypeError w)
                     | Some timeSlider \<Rightarrow>
                         (None,
                          w\<lparr>w_timeSlider :=
                              Some (timeSlider\<lparr>timeExtent := Some (None, new_Date clampedTime),
                                                playing := False\<rparr>)\<rparr>)))))"

definition Number :: "weather_value \<Rightarrow> real option" where
  "Number v = (case v of Numeric r \<Rightarrow> Some r | NonNumeric s \<Rightarrow> None)"

text \<open>
  The numeric weather amounts: the current slide's value, replaced by the
  interpolation when both slides define the amount and both are numbers.
\<close>

definition interpolate_amount ::
  "real \<Rightarrow> weather_value option \<Rightarrow> weather_value option \<Rightarrow> weather_value option" where
  "interpolate_amount progress cur nxt =
     (case cur of
        None \<Rightarrow> cur
      | Some a \<Rightarrow>
          (case nxt of
             None \<Rightarrow> cur
           | Some b \<Rightarrow>
               (case Number a of
                  None \<Rightarrow> cur
                | Some c0 \<Rightarrow>
                    (case Number b of
                       None \<Rightarrow> cur
                     | Some c1 \<Rightarrow> map_option Numeric (interpolate progress (Some c0) (Some c1))))))"

text \<open>
  The handler reads \<open>currentEnv.lighting.datetime\<close>, \<open>nextEnv.lighting.datetime\<close> and
  \<open>currentEnv.weather.cloudCover\<close> before its guards \<open>currentEnv.weather && nextEnv.weather\<close>,
  and \<open>nextEnv.weather.type\<close> after them without a guard. So a block without its
  lighting or its weather sub-block, on either side, throws a \<open>TypeError\<close>, as does
  the assignment to a \<open>null\<close> view; all of these happen before anything is written.
\<close>

definition interpolateEnvironment :: "slide \<Rightarrow> slide option \<Rightarrow> real \<Rightarrow> world \<Rightarrow> error option \<times> world" where
  "interpolateEnvironment slideCurrent slideNext progress w =
     (let currentEnv = slide_environment slideCurrent;
          nextEnv = (case slideNext of None \<Rightarrow> None | Some n \<Rightarrow> slide_environment n)
      in case currentEnv of
           None \<Rightarrow> (None, w)
         | Some cur \<Rightarrow>
        (case nextEnv of
           None \<Rightarrow> (None, w)
         | Some nxt \<Rightarrow>
        (case env_lighting cur of
           None \<Rightarrow> (Some TypeError, w)
         | Some curLighting \<Rightarrow>
        (case env_lighting nxt of
           None \<Rightarrow> (Some TypeError, w)
         | Some nxtLighting \<Rightarrow>
        (case env_weather cur of
           None \<Rightarrow> (Some TypeError, w)
         | Some curWeather \<Rightarrow>
        (case env_weather nxt of
           None \<Rightarrow> (Some TypeError, w)
         | Some nxtWeather \<Rightarrow>
             (let startLighting = Date_of (lighting_datetime curLighting);
                  endLighting = Date_of (lighting_datetime nxtLighting);
                  interpolatedLighting =
                    interpolate progress (getTime startLighting) (getTime endLighting);
                  interpolatedCloudCover =
                    interpolate_amount progress (weather_cloudCover curWeather)
                      (weather_cloudCover nxtWeather);
                  interpolatedPrecipitation =
                    interpolate_amount progress (weather_precipitation curWeather)
                      (weather_precipitation nxtWeather);
                  lightingType = lighting_type nxtLighting;
                  weatherType = weather_type nxtWeather
              in case w_view w of
                   None \<Rightarrow> (Some TypeError, w)
                 | Some v \<Rightarrow>
                     (None,
                      w\<lparr>w_view := Some (v\<lparr>environment := Some
                          \<lparr>ve_lighting = Some
                             \<lparr>vl_type = lightingType,
                              vl_date = Some (new_Date interpolatedLighting),
                              vl_datetime = None,
                              vl_displayUTCOffset = lighting_displayUTCOffset nxtLighting\<rparr>,
                           ve_atmosphereEnabled = env_atmosphereEnabled cur,
                           ve_starsEnabled = env_starsEnabled cur,
                           ve_weather = Some
                             \<lparr>vw_type = weatherType,
                              vw_cloudCover = interpolatedCloudCover,
                              vw_precipitation = interpolatedPrecipitation\<rparr>\<rparr>\<rparr>)\<rparr>))))))))"

section \<open>Discrete handlers (animateOnSlide.js)\<close>

text \<open>
  The time-control handler. Playback is started when the widget reports \<open>ready\<close>
  outside an embed and stopped when it reports \<open>ready\<close> inside one; the two
  remaining branches only write to the debug log.
\<close>

definition toggleTimeSlider :: "slide \<Rightarrow> bool \<Rightarrow> world \<Rightarrow> world" where
  "toggleTimeSlider slideData embedded w =
     (case w_timeSlider w of
        None \<Rightarrow> w
      | Some timeSlider \<Rightarrow>
     (case slide_timeSlider slideData of
        None \<Rightarrow> w
      | Some block \<Rightarrow>
     (case timeSliderStart block of
        None \<Rightarrow> w
      | Some timeStart \<Rightarrow>
     (case timeSliderEnd block of
        None \<Rightarrow> w
      | Some timeEnd \<Rightarrow>
          (let timeUnit = timeSliderUnit block;
               timeStep = timeSliderStep block;
               startFrame = Date_of (Some timeStart);
               endFrame = Date_of (Some timeEnd);
               configured = timeSlider
                 \<lparr>fullTimeExtent := Some (startFrame, endFrame),
                  timeExtent := Some (None, startFrame),
                  stops := Some (timeStep, timeUnit)\<rparr>
           in w\<lparr>w_timeSlider := Some
                (if ts_state configured = ''ready'' \<and> \<not> embedded then configured\<lparr>playing := True\<rparr>
                 else if ts_state configured = ''ready'' \<and> embedded then configured\<lparr>playing := False\<rparr>
                 else configured)\<rparr>)))))"

definition setLayerVisibility :: "string list option \<Rightarrow> bool \<Rightarrow> layer list \<Rightarrow> layer list" where
  "setLayerVisibility layerNames visibility mapLayers =
     (case layerNames of
        None \<Rightarrow> mapLayers
      | Some names \<Rightarrow>
          if length names > 0
          then map (\<lambda>mapLayer. if title mapLayer \<in> set names
                                then mapLayer\<lparr>visible := visibility\<rparr> else mapLayer) mapLayers
          else mapLayers)"

text \<open>
  \<open>view.map.layers\<close> of a \<open>null\<close> view and \<open>slideData.layerVisibility.layersOn\<close> of a
  \<open>null\<close> block throw before any layer is touched.
\<close>

definition toggleLayerVisibility :: "slide \<Rightarrow> bool \<Rightarrow> world \<Rightarrow> error option \<times> world" where
  "toggleLayerVisibility slideData embedded w =
     (case w_view w of
        None \<Rightarrow> (Some TypeError, w)
      | Some v \<Rightarrow>
     (case slide_layerVisibility slideData of
        None \<Rightarrow> (Some TypeError, w)
      | Some block \<Rightarrow>
          (let mapLayers = layers v;
               shown = setLayerVisibility (layersOn block) True mapLayers;
               hidden = setLayerVisibility (layersOff block) False shown
           in (None, w\<lparr>w_view := Some (v\<lparr>layers := hidden\<rparr>)\<rparr>))))"

definition lighting_patch :: "lighting_block \<Rightarrow> view_lighting option" where
  "lighting_patch l =
     (let d = (case lighting_datetime l of Some (ValidDate t) \<Rightarrow> Some (ValidDate t) | _ \<Rightarrow> None)
      in if lighting_type l = None \<and> d = None \<and> lighting_displayUTCOffset l = None then None
         else Some \<lparr>vl_type = lighting_type l, vl_date = None, vl_datetime = d,
                    vl_displayUTCOffset = lighting_displayUTCOffset l\<rparr>)"

definition amount_patch :: "weather_value option \<Rightarrow> weather_value option" where
  "amount_patch a =
     (case a of None \<Rightarrow> None | Some v \<Rightarrow> map_option Numeric (Number v))"

definition weather_patch :: "weather_block \<Rightarrow> view_weather option" where
  "weather_patch wb =
     (let cc = amount_patch (weather_cloudCover wb);
          p = amount_patch (weather_precipitation wb)
      in if weather_type wb = None \<and> cc = None \<and> p = None then None
         else Some \<lparr>vw_type = weather_type wb, vw_cloudCover = cc, vw_precipitation = p\<rparr>)"

text \<open>\<open>Object.assign({}, currentEnv, env)\<close>: a property of the patch replaces the current one.\<close>

definition assign_prop :: "'a option \<Rightarrow> 'a option \<Rightarrow> 'a option" where
  "assign_prop current patch = (case patch of None \<Rightarrow> current | Some p \<Rightarrow> Some p)"

definition toggleEnvironment :: "slide \<Rightarrow> bool \<Rightarrow> world \<Rightarrow> world" where
  "toggleEnvironment slideData embedded w =
     (case slide_environment slideData of
        None \<Rightarrow> w
      | Some slideEnv \<Rightarrow>
     (case w_view w of
        None \<Rightarrow> w
      | Some v \<Rightarrow>
     (case environment v of
        None \<Rightarrow> w
      | Some currentEnv \<Rightarrow>
          (let newEnv =
                 \<lparr>ve_lighting = assign_prop (ve_lighting currentEnv)
                     (case env_lighting slideEnv of None \<Rightarrow> None | Some l \<Rightarrow> lighting_patch l),
                  ve_atmosphereEnabled =
                    assign_prop (ve_atmosphereEnabled currentEnv) (env_atmosphereEnabled slideEnv),
                  ve_starsEnabled =
                    assign_prop (ve_starsEnabled currentEnv) (env_starsEnabled slideEnv),
                  ve_weather = assign_prop (ve_weather currentEnv)
                     (case env_weather slideEnv of None \<Rightarrow> None | Some wb \<Rightarrow> weather_patch wb)\<rparr>
           in w\<lparr>w_view := Some (v\<lparr>environment := Some newEnv\<rparr>)\<rparr>))))"

section \<open>The two dispatchers\<close>

text \<open>
  The viewpoint handlers and the track-renderer handler drive the engine's
  \<open>Camera\<close>, \<open>Viewpoint\<close> and layer classes; the dispatchers are modelled for any
  such handler, which may change the world and may throw.
\<close>

type_synonym slide_handler = "slide \<Rightarrow> bool \<Rightarrow> world \<Rightarrow> error option \<times> world"

type_synonym scroll_handler = "slide \<Rightarrow> slide option \<Rightarrow> real \<Rightarrow> world \<Rightarrow> error option \<times> world"

definition processing_message :: "string \<Rightarrow> string" where
  "processing_message key = ''Error processing '' @ [CHR 0x27] @ key @ [CHR 0x27] @ '':''"

text \<open>\<open>try { handler(context) } catch (error) { console.error(..., error) }\<close>\<close>

definition caught :: "string \<Rightarrow> error option \<times> world \<Rightarrow> world" where
  "caught key r =
     (case r of
        (None, w') \<Rightarrow> w'
      | (Some err, w') \<Rightarrow> console_error (processing_message key) err w')"

definition slide_choreographyHandlers ::
  "slide_handler \<Rightarrow> slide_handler \<Rightarrow> (string \<times> slide_handler) list" where
  "slide_choreographyHandlers toggleViewpoint toggleTrackRenderer =
     [(''viewpoint'', toggleViewpoint),
      (''timeSlider'', \<lambda>slideData embedded w. (None, toggleTimeSlider slideData embedded w)),
      (''layerVisibility'', toggleLayerVisibility),
      (''trackRenderer'', toggleTrackRenderer),
      (''environment'', \<lambda>slideData embedded w. (None, toggleEnvironment slideData embedded w))]"

definition NON_EMBED_EXCLUDE_KEYS :: "string list" where
  "NON_EMBED_EXCLUDE_KEYS = [''viewpoint'']"

fun slideAnimation_forEach ::
  "(string \<times> slide_handler) list \<Rightarrow> slide \<Rightarrow> bool \<Rightarrow> (string \<times> slide_value) list \<Rightarrow> world \<Rightarrow> world" where
  "slideAnimation_forEach handlers slideData embedded [] w = w"
| "slideAnimation_forEach handlers slideData embedded ((key, val) # rest) w =
     slideAnimation_forEach handlers slideData embedded rest
       (case map_of handlers key of
          None \<Rightarrow> w
        | Some handler \<Rightarrow>
            if embedded \<and> key \<in> set NON_EMBED_EXCLUDE_KEYS then w
            else caught key (handler slideData embedded w))"

definition slideAnimation ::
  "slide_handler \<Rightarrow> slide_handler \<Rightarrow> slide \<Rightarrow> bool \<Rightarrow> world \<Rightarrow> world" where
  "slideAnimation toggleViewpoint toggleTrackRenderer slideData embedded w =
     slideAnimation_forEach (slide_choreographyHandlers toggleViewpoint toggleTrackRenderer)
       slideData embedded slideData w"

definition scroll_choreographyHandlers :: "scroll_handler \<Rightarrow> (string \<times> scroll_handler) list" where
  "scroll_choreographyHandlers interpolateViewpoint =
     [(''viewpoint'', interpolateViewpoint),
      (''timeSlider'', \<lambda>slideCurrent slideNext progress w.
          (None, snd (interpolateTimeSlider slideCurrent progress w))),
      (''environment'', interpolateEnvironment)]"

fun scrollAnimation_forEach ::
  "(string \<times> scroll_handler) list \<Rightarrow> slide \<Rightarrow> slide option \<Rightarrow> real \<Rightarrow> string list \<Rightarrow> world \<Rightarrow> world" where
  "scrollAnimation_forEach handlers slideCurrent slideNext progress [] w = w"
| "scrollAnimation_forEach handlers slideCurrent slideNext progress (key # rest) w =
     scrollAnimation_forEach handlers slideCurrent slideNext progress rest
       (case map_of handlers key of
          None \<Rightarrow> console_error (processing_message key) TypeError w
        | Some handler \<Rightarrow> caught key (handler slideCurrent slideNext progress w))"

definition scrollAnimation ::
  "scroll_handler \<Rightarrow> slide \<Rightarrow> slide option \<Rightarrow> real \<Rightarrow> world \<Rightarrow> world" where
  "scrollAnimation interpolateViewpoint slideCurrent slideNext progress w =
     (let handlers = scroll_choreographyHandlers interpolateViewpoint
      in scrollAnimation_forEach handlers slideCurrent slideNext progress
           (filter (\<lambda>key. map_of handlers key \<noteq> None) (map fst slideCurrent)) w)"

section \<open>Scene lifecycle (sceneUtils.js)\<close>

definition slides_at :: "slide list \<Rightarrow> int \<Rightarrow> slide option" where
  "slides_at slides i =
     (if 0 \<le> i \<and> i < int (length slides) then Some (slides ! nat i) else None)"

text \<open>\<open>slide && slide.maps && slide.maps.includes(1)\<close>\<close>

definition uses_scene :: "slide option \<Rightarrow> bool" where
  "uses_scene slide =
     (case slide of
        None \<Rightarrow> False
      | Some s \<Rightarrow> (case slide_maps s of None \<Rightarrow> False | Some m \<Rightarrow> 1 \<in> set m))"

definition evaluateSceneLifecycle :: "int \<Rightarrow> slide list \<Rightarrow> bool" where
  "evaluateSceneLifecycle index slides =
     (let nearbySlides = [slides_at slides (index - 1), slides_at slides index,
                          slides_at slides (index + 1)]
      in list_ex uses_scene nearbySlides)"

text \<open>
  The module's variables, together with the pending \<open>setTimeout\<close> callbacks and a
  clock in milliseconds. A timer is pending from \<open>setTimeout\<close> until it fires or is
  cleared; \<open>elapse\<close> lets time pass and fires the callbacks that fall due, earliest
  first. Timer identifiers are positive, so a stored identifier is truthy.
\<close>

datatype element = Element string

datatype timer_action = DestroySceneTimer | ReleaseSyncTimer

record timer =
  timer_id :: nat
  due :: nat
  action :: timer_action

record scene_state =
  sceneElement :: "element option"
  sceneView :: "view option"
  activeWatcher :: bool
  needSceneLast :: "bool option"
  needScene :: "bool option"
  lastSyncTime :: nat
  sceneDestroyTimer :: "nat option"
  isSyncing :: bool
  timers :: "timer list"
  clock :: nat
  next_timer_id :: nat
  scene_console :: "(string \<times> error) list"

definition SYNC_THROTTLE_MS :: nat where
  "SYNC_THROTTLE_MS = 100"

definition SYNC_DEBOUNCE_MS :: nat where
  "SYNC_DEBOUNCE_MS = 100"

definition setTimeout :: "timer_action \<Rightarrow> nat \<Rightarrow> scene_state \<Rightarrow> nat \<times> scene_state" where
  "setTimeout a delay s =
     (next_timer_id s,
      s\<lparr>timers := timers s @ [\<lparr>timer_id = next_timer_id s, due = clock s + delay, action = a\<rparr>],
        next_timer_id := Suc (next_timer_id s)\<rparr>)"

definition clearTimeout :: "nat \<Rightarrow> scene_state \<Rightarrow> scene_state" where
  "clearTimeout i s = s\<lparr>timers := filter (\<lambda>tm. timer_id tm \<noteq> i) (timers s)\<rparr>"

definition destroyScene :: "scene_state \<Rightarrow> scene_state" where
  "destroyScene s =
     (case sceneElement s of
        None \<Rightarrow> s
      | Some el \<Rightarrow> s\<lparr>sceneElement := None, sceneView := None\<rparr>)"

definition cancelScheduledSceneDestroy :: "scene_state \<Rightarrow> scene_state" where
  "cancelScheduledSceneDestroy s =
     (case sceneDestroyTimer s of
        None \<Rightarrow> s
      | Some i \<Rightarrow> (clearTimeout i s)\<lparr>sceneDestroyTimer := None\<rparr>)"

definition scheduleSceneDestroy :: "nat \<Rightarrow> scene_state \<Rightarrow> scene_state" where
  "scheduleSceneDestroy delay s =
     (case setTimeout DestroySceneTimer delay (cancelScheduledSceneDestroy s) of
        (i, s') \<Rightarrow> s'\<lparr>sceneDestroyTimer := Some i\<rparr>)"

text \<open>The two callbacks handed to \<open>setTimeout\<close>.\<close>

definition fire :: "scene_state \<Rightarrow> timer \<Rightarrow> scene_state" where
  "fire s tm =
     (case action tm of
        DestroySceneTimer \<Rightarrow>
          (if sceneElement s \<noteq> None then destroyScene s else s)\<lparr>sceneDestroyTimer := None\<rparr>
      | ReleaseSyncTimer \<Rightarrow> s\<lparr>isSyncing := False\<rparr>)"

definition elapse :: "nat \<Rightarrow> scene_state \<Rightarrow> scene_state" where
  "elapse d s =
     (let t = clock s + d;
          ready = sort_key due (filter (\<lambda>tm. due tm \<le> t) (timers s));
          waiting = filter (\<lambda>tm. \<not> due tm \<le> t) (timers s)
      in (foldl fire (s\<lparr>timers := waiting\<rparr>) ready)\<lparr>clock := t\<rparr>)"

text \<open>
  \<open>configureMap\<close> builds the element in the page; \<open>ensureScene\<close> takes the outcome
  of that call: the element, \<open>undefined\<close> after a logged failure, or a thrown error.
\<close>

definition ensureScene ::
  "(error + element option) \<Rightarrow> scene_state \<Rightarrow> (error + element option) \<times> scene_state" where
  "ensureScene configureMap s =
     (if sceneElement s \<noteq> None then (Inr (sceneElement s), cancelScheduledSceneDestroy s)
      else (case configureMap of
              Inl e \<Rightarrow> (Inl e, s)
            | Inr el \<Rightarrow> (Inr el, s\<lparr>sceneElement := el\<rparr>)))"

text \<open>The one-time \<open>arcgisViewReadyChange\<close> listener: \<open>sceneView = sceneElement.view\<close>.\<close>

definition arcgisViewReadyChange :: "view \<Rightarrow> scene_state \<Rightarrow> scene_state" where
  "arcgisViewReadyChange v s =
     (case sceneElement s of None \<Rightarrow> s | Some el \<Rightarrow> s\<lparr>sceneView := Some v\<rparr>)"

text \<open>\<open>fromView.center?.latitude ?? fromView.center?.lat ?? 0\<close>\<close>

definition center_latitude :: "view \<Rightarrow> real" where
  "center_latitude fromView =
     (case center fromView of
        None \<Rightarrow> 0
      | Some c \<Rightarrow>
          (case latitude c of
             Some x \<Rightarrow> x
           | None \<Rightarrow> (case lat c of Some y \<Rightarrow> y | None \<Rightarrow> 0)))"

definition scaleConversionFactor :: "view \<Rightarrow> real" where
  "scaleConversionFactor fromView = cos ((center_latitude fromView * pi) / 180)"

definition adjust_scale :: "view \<Rightarrow> view \<Rightarrow> viewpoint \<Rightarrow> viewpoint" where
  "adjust_scale fromView toView vp =
     (if view_type fromView = ''3d'' \<and> view_type toView = ''2d''
      then vp\<lparr>scale := scale vp / scaleConversionFactor fromView\<rparr>
      else if view_type fromView = ''2d'' \<and> view_type toView = ''3d''
      then vp\<lparr>scale := scale vp * scaleConversionFactor fromView\<rparr>
      else vp)"

text \<open>
  \<open>syncViews\<close> returns the destination view as \<open>goTo\<close> left it. A source view
  without a viewpoint makes \<open>clone()\<close> throw, which is caught and logged; the
  \<open>finally\<close> block schedules the release of the busy flag either way.
\<close>

definition syncViews ::
  "view option \<Rightarrow> view option \<Rightarrow> scene_state \<Rightarrow> view option \<times> scene_state" where
  "syncViews fromView toView s =
     (case fromView of
        None \<Rightarrow> (toView, s)
      | Some f \<Rightarrow>
     (case toView of
        None \<Rightarrow> (toView, s)
      | Some t \<Rightarrow>
          if isSyncing s then (toView, s)
          else
            (let s1 = s\<lparr>isSyncing := True\<rparr>
             in case view_viewpoint f of
                  None \<Rightarrow>
                    (toView,
                     snd (setTimeout ReleaseSyncTimer SYNC_DEBOUNCE_MS
                       (s1\<lparr>scene_console := scene_console s1 @ [(''syncViews error'', TypeError)]\<rparr>)))
                | Some original \<Rightarrow>
                    (let vp = adjust_scale f t original
                     in (Some (t\<lparr>goTo_calls := goTo_calls t @ [(vp, False)]\<rparr>),
                         snd (setTimeout ReleaseSyncTimer SYNC_DEBOUNCE_MS s1))))))"

text \<open>The watcher installed by \<open>createScene\<close>, run when the primary viewpoint changes.\<close>

definition viewpoint_watcher :: "view option \<Rightarrow> scene_state \<Rightarrow> scene_state" where
  "viewpoint_watcher mapView s =
     (if \<not> isSyncing s \<and> sceneView s \<noteq> None
         \<and> int (clock s) - int (lastSyncTime s) > int SYNC_THROTTLE_MS
      then (case syncViews mapView (sceneView s) (s\<lparr>lastSyncTime := clock s\<rparr>) of
              (v, s') \<Rightarrow> s'\<lparr>sceneView := v\<rparr>)
      else s)"

definition createScene ::
  "int \<Rightarrow> slide list \<Rightarrow> (error + element option) \<Rightarrow> scene_state \<Rightarrow> (error + bool) \<times> scene_state" where
  "createScene index slides configureMap s =
     (let s1 = s\<lparr>needSceneLast := needScene s,
                needScene := Some (evaluateSceneLifecycle index slides)\<rparr>
      in if needScene s1 = Some True
         then (if activeWatcher s1 then (Inr True, s1)
               else (case ensureScene configureMap s1 of
                       (Inl e, s2) \<Rightarrow> (Inl e, s2)
                     | (Inr el, s2) \<Rightarrow> (Inr True, s2\<lparr>activeWatcher := True\<rparr>)))
         else
           (let s2 = (if needSceneLast s1 = Some True then scheduleSceneDestroy 600 s1 else s1)
            in (Inr False, s2\<lparr>activeWatcher := False\<rparr>)))"

section \<open>Crossfade\<close>

text \<open>
  The page holds the two containers by identifier. \<open>classList\<close> is reduced to the
  membership of the class \<open>hidden\<close>; the opacity is kept as the number whose decimal
  string the source stores.
\<close>

record container =
  hidden :: bool
  opacity :: "real option"
  pointerEvents :: "string option"

record main_state =
  containers :: "string \<Rightarrow> container option"
  mapView :: "view option"
  scene :: scene_state





definition view_of :: "int \<Rightarrow> main_state \<Rightarrow> view option" where
  "view_of i m = (if i = 0 then mapView m else sceneView (scene m))"

definition crossfade_sync :: "int \<Rightarrow> int \<Rightarrow> real \<Rightarrow> main_state \<Rightarrow> main_state" where
  "crossfade_sync fromMapIndex toMapIndex t m =
     (let fromView = view_of fromMapIndex m;
          toView = view_of toMapIndex m
      in if fromView \<noteq> None \<and> toView \<noteq> None \<and> t > 0 \<and> t < 1
         then (case syncViews fromView toView (scene m) of
                 (v, s) \<Rightarrow>
                   if toMapIndex = 0 then m\<lparr>mapView := v, scene := s\<rparr>
                   else m\<lparr>scene := s\<lparr>sceneView := v\<rparr>\<rparr>)
         else m)"


section \<open>An invariant of the timers\<close>

text \<open>
  Every pending destroy callback is the one whose identifier \<open>sceneDestroyTimer\<close>
  holds: \<open>scheduleSceneDestroy\<close> is the only place that sets such a timer, and it
  clears the previous one first.
\<close>

definition destroy_tracked :: "scene_state \<Rightarrow> bool" where
  "destroy_tracked s =
     list_all (\<lambda>tm. action tm = DestroySceneTimer \<longrightarrow> sceneDestroyTimer s = Some (timer_id tm))
       (timers s)"

text \<open>
  The module's timers are well kept when every pending destroy callback is the
  tracked one, identifiers are not reused, and every identifier handed out is below
  the next one. This holds when the module is loaded and is kept by every operation.
\<close>

definition timers_ok :: "scene_state \<Rightarrow> bool" where
  "timers_ok s \<longleftrightarrow>
     destroy_tracked s \<and> distinct (map timer_id (timers s))
     \<and> list_all (\<lambda>tm. timer_id tm < next_timer_id s) (timers s)"

text \<open>The module's variables as the file initialises them, at a given time.\<close>

definition initial_scene_state :: "nat \<Rightarrow> scene_state" where
  "initial_scene_state t =
     \<lparr>sceneElement = None, sceneView = None, activeWatcher = False,
      needSceneLast = None, needScene = None, lastSyncTime = 0,
      sceneDestroyTimer = None, isSyncing = False, timers = [],
      clock = t, next_timer_id = 1, scene_console = []\<rparr>"

section \<open>Sample inputs\<close>

text \<open>Six slides of which only the one at index 3 is shown on the 3D scene.\<close>

definition demo_slides :: "slide list" where
  "demo_slides =
     [[(''maps'', Maps [0])], [(''maps'', Maps [0])], [(''title'', Other)],
      [(''maps'', Maps [0, 1])], [(''maps'', Maps [0])], [(''maps'', Maps [0])]]"

text \<open>A view with three layers and a slide that lists one layer in both lists.\<close>

definition demo_layers_view :: view where
  "demo_layers_view =
     \<lparr>view_type = ''2d'', view_viewpoint = None, center = None,
      layers = [\<lparr>title = ''Dams'', visible = False\<rparr>, \<lparr>title = ''Route'', visible = True\<rparr>,
                \<lparr>title = ''Basemap'', visible = True\<rparr>],
      environment = None, goTo_calls = []\<rparr>"



text \<open>A ten-second time window stepped by seconds, and a time control in a given state.\<close>

definition demo_time_block :: ts_block where
  "demo_time_block =
     \<lparr>timeSliderStart = Some (ValidDate 0), timeSliderEnd = Some (ValidDate 10000),
      timeSliderStep = Some 1, timeSliderUnit = Some ''seconds''\<rparr>"


definition demo_widget :: "string \<Rightarrow> bool \<Rightarrow> time_control" where
  "demo_widget st p =
     \<lparr>fullTimeExtent = None, timeExtent = None, stops = None, ts_state = st, playing = p\<rparr>"


text \<open>Time windows starting at 0 for the continuous handler, with a given end, step and unit.\<close>

definition demo_window :: "int \<Rightarrow> real \<Rightarrow> string \<Rightarrow> ts_block" where
  "demo_window e step u =
     \<lparr>timeSliderStart = Some (ValidDate 0), timeSliderEnd = Some (ValidDate e),
      timeSliderStep = Some step, timeSliderUnit = Some u\<rparr>"


text \<open>
  Environment blocks: a complete one at a given lighting time, and one that has
  lighting but no weather sub-block; a 3D view with an environment.
\<close>

definition demo_env :: "int \<Rightarrow> string \<Rightarrow> real \<Rightarrow> env_block" where
  "demo_env t wt cc =
     \<lparr>env_lighting = Some \<lparr>lighting_type = Some ''sun'', lighting_datetime = Some (ValidDate t),
                            lighting_displayUTCOffset = Some 1\<rparr>,
      env_atmosphereEnabled = Some True, env_starsEnabled = Some False,
      env_weather = Some \<lparr>weather_type = Some wt, weather_cloudCover = Some (Numeric cc),
                           weather_precipitation = None\<rparr>\<rparr>"

definition demo_env_no_weather :: "int \<Rightarrow> env_block" where
  "demo_env_no_weather t =
     \<lparr>env_lighting = Some \<lparr>lighting_type = Some ''sun'', lighting_datetime = Some (ValidDate t),
                            lighting_displayUTCOffset = Some 1\<rparr>,
      env_atmosphereEnabled = Some True, env_starsEnabled = Some False,
      env_weather = None\<rparr>"

definition demo_scene_view :: view where
  "demo_scene_view =
     \<lparr>view_type = ''3d'', view_viewpoint = None, center = None, layers = [],
      environment = Some \<lparr>ve_lighting = None, ve_atmosphereEnabled = None,
                           ve_starsEnabled = None, ve_weather = None\<rparr>,
      goTo_calls = []\<rparr>"

definition demo_scene_world :: world where
  "demo_scene_world =
     \<lparr>w_view = Some demo_scene_view, w_timeSlider = Some (demo_widget ''ready'' False), console = []\<rparr>"

text \<open>
  A slide whose viewpoint makes the engine throw and whose environment block lacks
  the weather sub-block, with well-formed layer and time blocks; a world to apply it to.
\<close>

definition demo_throwing_handler :: slide_handler where
  "demo_throwing_handler slideData embedded w = (Some (Exception ''engine''), w)"

definition demo_throwing_scroll_handler :: scroll_handler where
  "demo_throwing_scroll_handler slideCurrent slideNext progress w = (Some (Exception ''engine''), w)"

definition demo_broken_slide :: slide where
  "demo_broken_slide =
     [(''viewpoint'', Null),
      (''environment'', Environment (demo_env_no_weather 0)),
      (''layerVisibility'', LayerVisibility \<lparr>layersOn = Some [''Dams''], layersOff = Some [''Route'']\<rparr>),
      (''timeSlider'', TimeSlider demo_time_block)]"

definition demo_full_world :: world where
  "demo_full_world =
     \<lparr>w_view = Some demo_layers_view, w_timeSlider = Some (demo_widget ''ready'' False), console = []\<rparr>"

text \<open>A live scene that the last evaluation needed, with a sync release pending.\<close>

definition demo_live_scene :: scene_state where
  "demo_live_scene =
     \<lparr>sceneElement = Some (Element ''arcgis-scene''), sceneView = None, activeWatcher = True,
      needSceneLast = Some True, needScene = Some True, lastSyncTime = 0,
      sceneDestroyTimer = None, isSyncing = True,
      timers = [\<lparr>timer_id = 1, due = 1050, action = ReleaseSyncTimer\<rparr>],
      clock = 1000, next_timer_id = 2, scene_console = []\<rparr>"

text \<open>
  A 2D map centred at latitude 60 at scale 1000, a 3D scene, and an idle module state.
\<close>

definition demo_viewpoint :: viewpoint where
  "demo_viewpoint =
     \<lparr>rotation = 0, scale = 1000,
      targetGeometry = \<lparr>xmin = - 1, ymin = 59, xmax = 1, ymax = 61\<rparr>\<rparr>"

definition demo_map_view :: view where
  "demo_map_view =
     \<lparr>view_type = ''2d'', view_viewpoint = Some demo_viewpoint,
      center = Some \<lparr>latitude = Some 60, lat = None\<rparr>, layers = [],
      environment = None, goTo_calls = []\<rparr>"

definition demo_3d_view :: view where
  "demo_3d_view =
     \<lparr>view_type = ''3d'', view_viewpoint = Some demo_viewpoint,
      center = Some \<lparr>latitude = Some 60, lat = None\<rparr>, layers = [],
      environment = None, goTo_calls = []\<rparr>"

definition demo_idle_scene :: scene_state where
  "demo_idle_scene =
     \<lparr>sceneElement = Some (Element ''arcgis-scene''), sceneView = Some demo_3d_view,
      activeWatcher = False, needSceneLast = Some True, needScene = Some True, lastSyncTime = 0,
      sceneDestroyTimer = None, isSyncing = False, timers = [],
      clock = 1000, next_timer_id = 1, scene_console = []\<rparr>"


section \<open>The lookahead window of the scene lifecycle\<close>

lemma uses_scene_at:
  "uses_scene (slides_at slides j) \<longleftrightarrow>
     (0 \<le> j \<and> j < int (length slides) \<and> (\<exists>m. slide_maps (slides ! nat j) = Some m \<and> 1 \<in> set m))"
  by (auto simp: uses_scene_def slides_at_def split: option.splits)

text \<open>
  C6. For every slide sequence and every index, \<open>evaluateSceneLifecycle\<close> is true
  exactly when one of the slides at \<open>index - 1\<close>, \<open>index\<close>, \<open>index + 1\<close> exists and
  its \<open>maps\<close> array contains the identifier 1. When only the slide at index 3
  references surface 1, it is true exactly for the indices 2, 3 and 4.
\<close>

theorem evaluateSceneLifecycle_window:
  "(evaluateSceneLifecycle index slides \<longleftrightarrow>
      (\<exists>j\<in>{index - 1, index, index + 1}. 0 \<le> j \<and> j < int (length slides)
          \<and> (\<exists>m. slide_maps (slides ! nat j) = Some m \<and> 1 \<in> set m)))
   \<and> ((3 < length slides
        \<and> (\<forall>k<length slides. (\<exists>m. slide_maps (slides ! k) = Some m \<and> 1 \<in> set m) \<longleftrightarrow> k = 3))
       \<longrightarrow> (evaluateSceneLifecycle index slides \<longleftrightarrow> index \<in> {2, 3, 4}))"
proof -
  have window: "evaluateSceneLifecycle index slides \<longleftrightarrow>
      (\<exists>j\<in>{index - 1, index, index + 1}. 0 \<le> j \<and> j < int (length slides)
          \<and> (\<exists>m. slide_maps (slides ! nat j) = Some m \<and> 1 \<in> set m))"
    unfolding evaluateSceneLifecycle_def Let_def by (simp add: uses_scene_at)
  have only3: "evaluateSceneLifecycle index slides \<longleftrightarrow> index \<in> {2, 3, 4}"
    if len: "3 < length slides"
    and only: "\<forall>k<length slides. (\<exists>m. slide_maps (slides ! k) = Some m \<and> 1 \<in> set m) \<longleftrightarrow> k = 3"
  proof -
    have at: "(0 \<le> j \<and> j < int (length slides)
          \<and> (\<exists>m. slide_maps (slides ! nat j) = Some m \<and> 1 \<in> set m)) \<longleftrightarrow> j = 3" for j :: int
    proof
      assume a: "0 \<le> j \<and> j < int (length slides)
          \<and> (\<exists>m. slide_maps (slides ! nat j) = Some m \<and> 1 \<in> set m)"
      then have "nat j < length slides" by linarith
      with only a have "nat j = 3" by blast
      with a show "j = 3" by linarith
    next
      assume "j = 3"
      with len only show "0 \<le> j \<and> j < int (length slides)
          \<and> (\<exists>m. slide_maps (slides ! nat j) = Some m \<and> 1 \<in> set m)" by simp
    qed
    show ?thesis unfolding window by (simp add: at) presburger
  qed
  from window only3 show ?thesis by blast
qed

theorem evaluateSceneLifecycle_window_witness:
  "\<not> evaluateSceneLifecycle 0 demo_slides \<and> \<not> evaluateSceneLifecycle 1 demo_slides
   \<and> evaluateSceneLifecycle 2 demo_slides \<and> evaluateSceneLifecycle 3 demo_slides
   \<and> evaluateSceneLifecycle 4 demo_slides \<and> \<not> evaluateSceneLifecycle 5 demo_slides"
proof -
  have len: "3 < length demo_slides" by (simp add: demo_slides_def)
  have only: "\<forall>k<length demo_slides.
      (\<exists>m. slide_maps (demo_slides ! k) = Some m \<and> 1 \<in> set m) \<longleftrightarrow> k = 3"
    by (simp add: demo_slides_def slide_maps_def numeral_eq_Suc less_Suc_eq)
  have "evaluateSceneLifecycle i demo_slides \<longleftrightarrow> i \<in> {2, 3, 4}" for i
    using evaluateSceneLifecycle_window [of i demo_slides] len only by blast
  then show ?thesis by simp
qed

section \<open>Layer visibility\<close>

lemma setLayerVisibility_length [simp]:
  "length (setLayerVisibility names b ls) = length ls"
  by (simp add: setLayerVisibility_def split: option.splits)




section \<open>The discrete time-control handler\<close>




section \<open>The continuous time handler\<close>



lemma truncate_ms_of_int [simp]: "truncate_ms (real_of_int k) = k"
  by (simp add: truncate_ms_def)



section \<open>The early exit of the continuous time handler\<close>



section \<open>The continuous environment handler\<close>

lemma interpolate_amount_numeric:
  "interpolate_amount progress (Some (Numeric a)) (Some (Numeric b))
     = Some (Numeric (a + (b - a) * progress))"
  by (simp add: interpolate_amount_def Number_def interpolate_def js_binop_def)

lemma interpolateEnvironment_no_block:
  "slide_environment slideCurrent = None
     \<or> (case slideNext of None \<Rightarrow> True | Some n \<Rightarrow> slide_environment n = None)
   \<Longrightarrow> interpolateEnvironment slideCurrent slideNext progress w = (None, w)"
  by (auto simp: interpolateEnvironment_def Let_def split: option.splits)

text \<open>
  On two environment blocks that both have a lighting and a weather sub-block the
  handler interpolates: the lighting time linearly (cut to whole milliseconds by
  \<open>Date\<close>), the numeric amounts when both sides have them, and the two types are
  the next slide's. When either slide has no environment block nothing happens.
\<close>

lemma interpolateEnvironment_complete:
  assumes "slide_environment slideCurrent = Some cur"
    and "slide_environment slideNext = Some nxt"
    and "env_lighting cur = Some curLighting" and "env_lighting nxt = Some nxtLighting"
    and "env_weather cur = Some curWeather" and "env_weather nxt = Some nxtWeather"
    and "lighting_datetime curLighting = Some (ValidDate t0)"
    and "lighting_datetime nxtLighting = Some (ValidDate t1)"
    and "w_view w = Some v"
  shows "interpolateEnvironment slideCurrent (Some slideNext) progress w =
     (None,
      w\<lparr>w_view := Some (v\<lparr>environment := Some
          \<lparr>ve_lighting = Some
             \<lparr>vl_type = lighting_type nxtLighting,
              vl_date = Some (ValidDate (truncate_ms
                 (real_of_int t0 + (real_of_int t1 - real_of_int t0) * progress))),
              vl_datetime = None,
              vl_displayUTCOffset = lighting_displayUTCOffset nxtLighting\<rparr>,
           ve_atmosphereEnabled = env_atmosphereEnabled cur,
           ve_starsEnabled = env_starsEnabled cur,
           ve_weather = Some
             \<lparr>vw_type = weather_type nxtWeather,
              vw_cloudCover = interpolate_amount progress (weather_cloudCover curWeather)
                 (weather_cloudCover nxtWeather),
              vw_precipitation = interpolate_amount progress (weather_precipitation curWeather)
                 (weather_precipitation nxtWeather)\<rparr>\<rparr>\<rparr>)\<rparr>)"
  using assms
  by (simp add: interpolateEnvironment_def Let_def Date_of_def getTime_def interpolate_def
      js_binop_def new_Date_def)

lemma interpolateEnvironment_quarter_hour:
  "map_option environment (w_view (snd (interpolateEnvironment
      [(''environment'', Environment (demo_env 1000000 ''clear'' 20))]
      (Some [(''environment'', Environment (demo_env 4600000 ''rain'' 60))]) 0.25 demo_scene_world)))
   = Some (Some
        \<lparr>ve_lighting = Some \<lparr>vl_type = Some ''sun'', vl_date = Some (ValidDate 1900000),
                             vl_datetime = None, vl_displayUTCOffset = Some 1\<rparr>,
         ve_atmosphereEnabled = Some True, ve_starsEnabled = Some False,
         ve_weather = Some \<lparr>vw_type = Some ''rain'', vw_cloudCover = Some (Numeric 30),
                            vw_precipitation = None\<rparr>\<rparr>)"
  by (simp add: interpolateEnvironment_def slide_environment_def demo_env_def demo_scene_world_def
      Let_def Date_of_def getTime_def interpolate_def js_binop_def new_Date_def truncate_ms_def
      interpolate_amount_def Number_def)

text \<open>
  C5: the failing input. The current slide's environment block has lighting but no
  weather sub-block (the discrete handler accepts such a block, and this handler
  tests \<open>currentEnv.weather && nextEnv.weather\<close>, but only after it has read
  \<open>currentEnv.weather.cloudCover\<close>). The handler throws; the dispatcher logs the error
  and the view's environment is not touched, so the lighting time is not interpolated.
\<close>

theorem interpolateEnvironment_throws_without_weather:
  "interpolateEnvironment [(''environment'', Environment (demo_env_no_weather 1000000))]
      (Some [(''environment'', Environment (demo_env 4600000 ''rain'' 60))]) 0.25 demo_scene_world
     = (Some TypeError, demo_scene_world)
   \<and> scrollAnimation demo_throwing_scroll_handler
        [(''environment'', Environment (demo_env_no_weather 1000000))]
        (Some [(''environment'', Environment (demo_env 4600000 ''rain'' 60))]) 0.25 demo_scene_world
     = demo_scene_world\<lparr>console := [(processing_message ''environment'', TypeError)]\<rparr>"
proof -
  have h: "interpolateEnvironment [(''environment'', Environment (demo_env_no_weather 1000000))]
      (Some [(''environment'', Environment (demo_env 4600000 ''rain'' 60))]) p w
     = (Some TypeError, w)" for p w
    by (simp add: interpolateEnvironment_def slide_environment_def demo_env_def
        demo_env_no_weather_def Let_def)
  have "scrollAnimation demo_throwing_scroll_handler
        [(''environment'', Environment (demo_env_no_weather 1000000))]
        (Some [(''environment'', Environment (demo_env 4600000 ''rain'' 60))]) 0.25 demo_scene_world
     = demo_scene_world\<lparr>console := [(processing_message ''environment'', TypeError)]\<rparr>"
    by (simp add: scrollAnimation_def scroll_choreographyHandlers_def Let_def h caught_def
        console_error_def demo_scene_world_def)
  with h show ?thesis by blast
qed

section \<open>Failure isolation in the two dispatchers\<close>

lemma slideAnimation_forEach_append:
  "slideAnimation_forEach handlers slideData embedded (xs @ ys) w =
     slideAnimation_forEach handlers slideData embedded ys
       (slideAnimation_forEach handlers slideData embedded xs w)"
  by (induction xs arbitrary: w) auto

lemma scrollAnimation_forEach_append:
  "scrollAnimation_forEach handlers slideCurrent slideNext progress (xs @ ys) w =
     scrollAnimation_forEach handlers slideCurrent slideNext progress ys
       (scrollAnimation_forEach handlers slideCurrent slideNext progress xs w)"
  by (induction xs arbitrary: w) auto

text \<open>
  C9. In both dispatchers, whatever a handler does, returning or throwing, the
  entries after it are dispatched as usual, from the world that handler left; a
  thrown error is written to the console with the key. So a handler that throws
  does not keep the handlers of the later keys from running.
\<close>

theorem dispatch_isolation:
  "(slideData = pre @ (key, val) # post
      \<and> map_of (slide_choreographyHandlers toggleViewpoint toggleTrackRenderer) key = Some handler
      \<and> \<not> (embedded \<and> key \<in> set NON_EMBED_EXCLUDE_KEYS)
      \<and> handler slideData embedded
           (slideAnimation_forEach (slide_choreographyHandlers toggleViewpoint toggleTrackRenderer)
              slideData embedded pre w) = (outcome, w')
    \<longrightarrow> slideAnimation toggleViewpoint toggleTrackRenderer slideData embedded w =
          slideAnimation_forEach (slide_choreographyHandlers toggleViewpoint toggleTrackRenderer)
            slideData embedded post
            (case outcome of
               None \<Rightarrow> w'
             | Some err \<Rightarrow> console_error (processing_message key) err w'))
   \<and> (filter (\<lambda>k. map_of (scroll_choreographyHandlers interpolateViewpoint) k \<noteq> None)
          (map fst slideCurrent) = pre' @ key' # post'
      \<and> map_of (scroll_choreographyHandlers interpolateViewpoint) key' = Some handler'
      \<and> handler' slideCurrent slideNext progress
           (scrollAnimation_forEach (scroll_choreographyHandlers interpolateViewpoint)
              slideCurrent slideNext progress pre' v) = (outcome', v')
    \<longrightarrow> scrollAnimation interpolateViewpoint slideCurrent slideNext progress v =
          scrollAnimation_forEach (scroll_choreographyHandlers interpolateViewpoint)
            slideCurrent slideNext progress post'
            (case outcome' of
               None \<Rightarrow> v'
             | Some err \<Rightarrow> console_error (processing_message key') err v'))"
proof (intro conjI impI)
  assume a: "slideData = pre @ (key, val) # post
      \<and> map_of (slide_choreographyHandlers toggleViewpoint toggleTrackRenderer) key = Some handler
      \<and> \<not> (embedded \<and> key \<in> set NON_EMBED_EXCLUDE_KEYS)
      \<and> handler slideData embedded
           (slideAnimation_forEach (slide_choreographyHandlers toggleViewpoint toggleTrackRenderer)
              slideData embedded pre w) = (outcome, w')"
  let ?H = "slide_choreographyHandlers toggleViewpoint toggleTrackRenderer"
  have "slideAnimation toggleViewpoint toggleTrackRenderer slideData embedded w =
      slideAnimation_forEach ?H slideData embedded ((key, val) # post)
        (slideAnimation_forEach ?H slideData embedded pre w)"
    unfolding slideAnimation_def
    using a slideAnimation_forEach_append [of ?H slideData embedded pre "(key, val) # post" w]
    by simp
  also have "\<dots> = slideAnimation_forEach ?H slideData embedded post
        (case outcome of None \<Rightarrow> w' | Some err \<Rightarrow> console_error (processing_message key) err w')"
    using a by (cases outcome) (auto simp: caught_def)
  finally show "slideAnimation toggleViewpoint toggleTrackRenderer slideData embedded w =
      slideAnimation_forEach ?H slideData embedded post
        (case outcome of None \<Rightarrow> w' | Some err \<Rightarrow> console_error (processing_message key) err w')" .
next
  assume a: "filter (\<lambda>k. map_of (scroll_choreographyHandlers interpolateViewpoint) k \<noteq> None)
          (map fst slideCurrent) = pre' @ key' # post'
      \<and> map_of (scroll_choreographyHandlers interpolateViewpoint) key' = Some handler'
      \<and> handler' slideCurrent slideNext progress
           (scrollAnimation_forEach (scroll_choreographyHandlers interpolateViewpoint)
              slideCurrent slideNext progress pre' v) = (outcome', v')"
  let ?H = "scroll_choreographyHandlers interpolateViewpoint"
  have "scrollAnimation interpolateViewpoint slideCurrent slideNext progress v =
      scrollAnimation_forEach ?H slideCurrent slideNext progress (key' # post')
        (scrollAnimation_forEach ?H slideCurrent slideNext progress pre' v)"
    unfolding scrollAnimation_def Let_def
    using a scrollAnimation_forEach_append [of ?H slideCurrent slideNext progress pre' "key' # post'" v]
    by simp
  also have "\<dots> = scrollAnimation_forEach ?H slideCurrent slideNext progress post'
        (case outcome' of None \<Rightarrow> v' | Some err \<Rightarrow> console_error (processing_message key') err v')"
    using a by (cases outcome') (auto simp: caught_def)
  finally show "scrollAnimation interpolateViewpoint slideCurrent slideNext progress v =
      scrollAnimation_forEach ?H slideCurrent slideNext progress post'
        (case outcome' of None \<Rightarrow> v' | Some err \<Rightarrow> console_error (processing_message key') err v')" .
qed

theorem dispatch_isolation_witness:
  "slideAnimation demo_throwing_handler demo_throwing_handler demo_broken_slide False demo_full_world
     = demo_full_world
         \<lparr>w_view := Some (demo_layers_view
            \<lparr>layers := [\<lparr>title = ''Dams'', visible = True\<rparr>, \<lparr>title = ''Route'', visible = False\<rparr>,
                         \<lparr>title = ''Basemap'', visible = True\<rparr>]\<rparr>),
          w_timeSlider := Some (demo_widget ''ready'' False
            \<lparr>fullTimeExtent := Some (ValidDate 0, ValidDate 10000),
             timeExtent := Some (None, ValidDate 0),
             stops := Some (Some 1, Some ''seconds''),
             playing := True\<rparr>),
          console := [(processing_message ''viewpoint'', Exception ''engine'')]\<rparr>
   \<and> scrollAnimation demo_throwing_scroll_handler
        [(''environment'', Environment (demo_env_no_weather 0)),
         (''timeSlider'', TimeSlider (demo_window 3000 1 ''seconds''))]
        (Some [(''environment'', Environment (demo_env 3600000 ''rain'' 60))]) 0.5 demo_full_world
     = demo_full_world
         \<lparr>w_timeSlider := Some (demo_widget ''ready'' False
            \<lparr>timeExtent := Some (None, ValidDate 2000), playing := False\<rparr>),
          console := [(processing_message ''environment'', TypeError)]\<rparr>"
proof -
  let ?post = "[(''environment'', Environment (demo_env_no_weather 0)),
      (''layerVisibility'', LayerVisibility \<lparr>layersOn = Some [''Dams''], layersOff = Some [''Route'']\<rparr>),
      (''timeSlider'', TimeSlider demo_time_block)]"
  let ?H = "slide_choreographyHandlers demo_throwing_handler demo_throwing_handler"
  have discrete: "slideAnimation demo_throwing_handler demo_throwing_handler demo_broken_slide False
        demo_full_world =
      slideAnimation_forEach ?H demo_broken_slide False ?post
        (console_error (processing_message ''viewpoint'') (Exception ''engine'') demo_full_world)"
    using dispatch_isolation [THEN conjunct1, rule_format,
        where slideData = demo_broken_slide and pre = "[]" and key = "''viewpoint''" and val = Null
          and post = ?post and toggleViewpoint = demo_throwing_handler
          and toggleTrackRenderer = demo_throwing_handler and handler = demo_throwing_handler
          and embedded = False and w = demo_full_world and outcome = "Some (Exception ''engine'')"
          and w' = demo_full_world]
    by (simp add: demo_broken_slide_def slide_choreographyHandlers_def demo_throwing_handler_def)
  have layers_time: "slideAnimation_forEach ?H demo_broken_slide False ?post
        (console_error (processing_message ''viewpoint'') (Exception ''engine'') demo_full_world)
     = demo_full_world
         \<lparr>w_view := Some (demo_layers_view
            \<lparr>layers := [\<lparr>title = ''Dams'', visible = True\<rparr>, \<lparr>title = ''Route'', visible = False\<rparr>,
                         \<lparr>title = ''Basemap'', visible = True\<rparr>]\<rparr>),
          w_timeSlider := Some (demo_widget ''ready'' False
            \<lparr>fullTimeExtent := Some (ValidDate 0, ValidDate 10000),
             timeExtent := Some (None, ValidDate 0),
             stops := Some (Some 1, Some ''seconds''),
             playing := True\<rparr>),
          console := [(processing_message ''viewpoint'', Exception ''engine'')]\<rparr>"
    by (simp add: slide_choreographyHandlers_def caught_def console_error_def demo_full_world_def
        toggleEnvironment_def toggleLayerVisibility_def toggleTimeSlider_def demo_broken_slide_def
        slide_environment_def slide_layerVisibility_def slide_timeSlider_def demo_layers_view_def
        demo_widget_def demo_time_block_def setLayerVisibility_def Date_of_def Let_def
        NON_EMBED_EXCLUDE_KEYS_def)
  let ?cur = "[(''environment'', Environment (demo_env_no_weather 0)),
         (''timeSlider'', TimeSlider (demo_window 3000 1 ''seconds''))]"
  let ?nxt = "Some [(''environment'', Environment (demo_env 3600000 ''rain'' 60))]"
  let ?S = "scroll_choreographyHandlers demo_throwing_scroll_handler"
  have thrown: "interpolateEnvironment ?cur ?nxt p w = (Some TypeError, w)" for p w
    by (simp add: interpolateEnvironment_def slide_environment_def demo_env_def
        demo_env_no_weather_def Let_def)
  have continuous: "scrollAnimation demo_throwing_scroll_handler ?cur ?nxt 0.5 demo_full_world =
      scrollAnimation_forEach ?S ?cur ?nxt 0.5 [''timeSlider'']
        (console_error (processing_message ''environment'') TypeError demo_full_world)"
    using dispatch_isolation [THEN conjunct2, rule_format,
        where slideCurrent = ?cur and slideNext = ?nxt and progress = "0.5" and pre' = "[]"
          and key' = "''environment''" and post' = "[''timeSlider'']"
          and interpolateViewpoint = demo_throwing_scroll_handler
          and handler' = interpolateEnvironment and v = demo_full_world
          and outcome' = "Some TypeError" and v' = demo_full_world]
    by (simp add: scroll_choreographyHandlers_def thrown)
  have time: "scrollAnimation_forEach ?S ?cur ?nxt 0.5 [''timeSlider'']
        (console_error (processing_message ''environment'') TypeError demo_full_world)
     = demo_full_world
         \<lparr>w_timeSlider := Some (demo_widget ''ready'' False
            \<lparr>timeExtent := Some (None, ValidDate 2000), playing := False\<rparr>),
          console := [(processing_message ''environment'', TypeError)]\<rparr>"
    by (simp add: scroll_choreographyHandlers_def caught_def console_error_def demo_full_world_def
        interpolateTimeSlider_def slide_timeSlider_def demo_window_def demo_widget_def Let_def
        Date_of_def getTime_def interpolate_def js_binop_def Math_min_def Math_max_def
        Math_ceil_def new_Date_def unit_factor_def unitToMs_def truncate_ms_def)
  from discrete layers_time continuous time show ?thesis by simp
qed

section \<open>The grace delay before the scene is destroyed\<close>

lemma fire_release:
  "action tm = ReleaseSyncTimer \<Longrightarrow>
     sceneElement (fire s tm) = sceneElement s \<and> sceneDestroyTimer (fire s tm) = sceneDestroyTimer s
     \<and> timers (fire s tm) = timers s"
  by (simp add: fire_def)

lemma fire_all_release:
  "\<forall>tm\<in>set tms. action tm = ReleaseSyncTimer \<Longrightarrow>
     sceneElement (foldl fire s tms) = sceneElement s
     \<and> sceneDestroyTimer (foldl fire s tms) = sceneDestroyTimer s
     \<and> timers (foldl fire s tms) = timers s"
  by (induction tms arbitrary: s) (simp_all add: fire_release)

lemma fire_keeps_absent: "sceneElement s = None \<Longrightarrow> sceneElement (fire s tm) = None"
  by (simp add: fire_def destroyScene_def split: timer_action.splits)

lemma fire_all_keeps_absent: "sceneElement s = None \<Longrightarrow> sceneElement (foldl fire s tms) = None"
  by (induction tms arbitrary: s) (simp_all add: fire_keeps_absent)

lemma fire_destroy: "action tm = DestroySceneTimer \<Longrightarrow> sceneElement (fire s tm) = None"
  by (simp add: fire_def destroyScene_def split: option.splits)

lemma fire_all_destroy:
  "\<exists>tm\<in>set tms. action tm = DestroySceneTimer \<Longrightarrow> sceneElement (foldl fire s tms) = None"
proof (induction tms arbitrary: s)
  case Nil
  then show ?case by simp
next
  case (Cons tm tms)
  show ?case
  proof (cases "action tm = DestroySceneTimer")
    case True
    then show ?thesis by (simp add: fire_destroy fire_all_keeps_absent)
  next
    case False
    with Cons.prems have "\<exists>tm\<in>set tms. action tm = DestroySceneTimer" by auto
    then show ?thesis by (simp add: Cons.IH)
  qed
qed

lemma elapse_release_only:
  assumes "\<forall>tm\<in>set (timers s). due tm \<le> clock s + d \<longrightarrow> action tm = ReleaseSyncTimer"
  shows "sceneElement (elapse d s) = sceneElement s
     \<and> sceneDestroyTimer (elapse d s) = sceneDestroyTimer s
     \<and> timers (elapse d s) = filter (\<lambda>tm. \<not> due tm \<le> clock s + d) (timers s)"
proof -
  have "\<forall>tm\<in>set (sort_key due (filter (\<lambda>tm. due tm \<le> clock s + d) (timers s))).
      action tm = ReleaseSyncTimer"
    using assms by simp
  from fire_all_release [OF this] show ?thesis
    by (simp add: elapse_def Let_def)
qed

lemma elapse_destroy_due:
  assumes "tm \<in> set (timers s)" and "action tm = DestroySceneTimer" and "due tm \<le> clock s + d"
  shows "sceneElement (elapse d s) = None"
proof -
  have "\<exists>x\<in>set (sort_key due (filter (\<lambda>tm. due tm \<le> clock s + d) (timers s))).
      action x = DestroySceneTimer"
    using assms by auto
  from fire_all_destroy [OF this] show ?thesis
    by (simp add: elapse_def Let_def)
qed

lemma cancel_removes_destroy:
  assumes "destroy_tracked s"
  shows "\<forall>tm\<in>set (timers (cancelScheduledSceneDestroy s)). action tm = ReleaseSyncTimer"
proof
  fix tm assume tm: "tm \<in> set (timers (cancelScheduledSceneDestroy s))"
  show "action tm = ReleaseSyncTimer"
  proof (cases "action tm")
    case ReleaseSyncTimer
    then show ?thesis .
  next
    case DestroySceneTimer
    from tm have mem: "tm \<in> set (timers s)"
      by (auto simp: cancelScheduledSceneDestroy_def clearTimeout_def split: option.splits)
    with assms DestroySceneTimer have "sceneDestroyTimer s = Some (timer_id tm)"
      by (auto simp: destroy_tracked_def list_all_iff)
    with tm have False
      by (auto simp: cancelScheduledSceneDestroy_def clearTimeout_def)
    then show ?thesis ..
  qed
qed

lemma cancel_keeps:
  "sceneElement (cancelScheduledSceneDestroy s) = sceneElement s
   \<and> clock (cancelScheduledSceneDestroy s) = clock s
   \<and> next_timer_id (cancelScheduledSceneDestroy s) = next_timer_id s"
  by (simp add: cancelScheduledSceneDestroy_def clearTimeout_def split: option.splits)

lemma schedule_shape:
  assumes "destroy_tracked s"
  shows "sceneElement (scheduleSceneDestroy delay s) = sceneElement s
     \<and> clock (scheduleSceneDestroy delay s) = clock s
     \<and> sceneDestroyTimer (scheduleSceneDestroy delay s) = Some (next_timer_id s)
     \<and> (\<exists>old. timers (scheduleSceneDestroy delay s) =
            old @ [\<lparr>timer_id = next_timer_id s, due = clock s + delay, action = DestroySceneTimer\<rparr>]
          \<and> (\<forall>tm\<in>set old. action tm = ReleaseSyncTimer))"
  using cancel_removes_destroy [OF assms] cancel_keeps [of s]
  by (simp add: scheduleSceneDestroy_def setTimeout_def)

text \<open>
  C7. When the re-evaluation goes from needed to not needed while the scene exists,
  the scene is not destroyed at once: a destroy is scheduled 600 ms ahead. If that
  time passes without \<open>ensureScene\<close>, the scene is gone; if \<open>ensureScene\<close> is called
  before the 600 ms are over, the pending destroy is cancelled, and the scene is there
  before the call, after it, and however much time passes afterwards.
\<close>

theorem scene_destroy_grace_delay:
  assumes "destroy_tracked s" and "sceneElement s = Some el"
    and "needScene s = Some True" and "\<not> evaluateSceneLifecycle index slides"
  shows "let after = snd (createScene index slides configureMap s)
         in fst (createScene index slides configureMap s) = Inr False
            \<and> sceneElement after = Some el
            \<and> (\<forall>d<600. sceneElement (elapse d after) = Some el)
            \<and> (\<forall>d\<ge>600. sceneElement (elapse d after) = None)
            \<and> (\<forall>d<600. \<forall>d'.
                  fst (ensureScene configureMap' (elapse d after)) = Inr (Some el)
                  \<and> sceneDestroyTimer (snd (ensureScene configureMap' (elapse d after))) = None
                  \<and> sceneElement (snd (ensureScene configureMap' (elapse d after))) = Some el
                  \<and> sceneElement (elapse d' (snd (ensureScene configureMap' (elapse d after))))
                      = Some el)"
proof -
  define s1 where "s1 = s\<lparr>needSceneLast := needScene s, needScene := Some False\<rparr>"
  define after where "after = (scheduleSceneDestroy 600 s1)\<lparr>activeWatcher := False\<rparr>"
  define new where
    "new = \<lparr>timer_id = next_timer_id s, due = clock s + 600, action = DestroySceneTimer\<rparr>"
  have run: "createScene index slides configureMap s = (Inr False, after)"
    using assms(3,4) by (simp add: createScene_def Let_def s1_def after_def)
  have tracked1: "destroy_tracked s1"
    using assms(1) by (simp add: destroy_tracked_def s1_def)
  from schedule_shape [OF tracked1, of 600]
  obtain old where elem: "sceneElement after = Some el"
    and clk: "clock after = clock s"
    and tid: "sceneDestroyTimer after = Some (next_timer_id s)"
    and tms: "timers after = old @ [new]"
    and old: "\<forall>tm\<in>set old. action tm = ReleaseSyncTimer"
    using assms(2) by (auto simp: after_def s1_def new_def)
  have before: "sceneElement (elapse d after) = Some el
      \<and> sceneDestroyTimer (elapse d after) = Some (next_timer_id s)
      \<and> timers (elapse d after) = filter (\<lambda>tm. \<not> due tm \<le> clock s + d) old @ [new]"
    if "d < 600" for d
  proof -
    have "\<forall>tm\<in>set (timers after). due tm \<le> clock after + d \<longrightarrow> action tm = ReleaseSyncTimer"
      using that old by (auto simp: tms clk new_def)
    from elapse_release_only [OF this] show ?thesis
      using that by (simp add: elem tid tms clk new_def)
  qed
  have gone: "sceneElement (elapse d after) = None" if "600 \<le> d" for d
    by (rule elapse_destroy_due [of new]) (use that in \<open>simp_all add: tms clk new_def\<close>)
  have ensured: "fst (ensureScene configureMap' (elapse d after)) = Inr (Some el)
      \<and> sceneDestroyTimer (snd (ensureScene configureMap' (elapse d after))) = None
      \<and> sceneElement (snd (ensureScene configureMap' (elapse d after))) = Some el
      \<and> sceneElement (elapse d' (snd (ensureScene configureMap' (elapse d after)))) = Some el"
    if "d < 600" for d d'
  proof -
    let ?e = "elapse d after"
    have e: "sceneElement ?e = Some el"
      and i: "sceneDestroyTimer ?e = Some (next_timer_id s)"
      and t: "timers ?e = filter (\<lambda>tm. \<not> due tm \<le> clock s + d) old @ [new]"
      using before [OF that] by simp_all
    have ens: "ensureScene configureMap' ?e = (Inr (Some el), cancelScheduledSceneDestroy ?e)"
      by (simp add: ensureScene_def e)
    have "destroy_tracked ?e"
      using old by (auto simp: destroy_tracked_def list_all_iff t i new_def)
    from cancel_removes_destroy [OF this]
    have "\<forall>tm\<in>set (timers (cancelScheduledSceneDestroy ?e)).
        due tm \<le> clock (cancelScheduledSceneDestroy ?e) + d' \<longrightarrow> action tm = ReleaseSyncTimer"
      by blast
    from elapse_release_only [OF this] show ?thesis
      by (simp add: ens cancel_keeps e) (simp add: cancelScheduledSceneDestroy_def i)
  qed
  show ?thesis
    unfolding Let_def run fst_conv snd_conv
    using elem before gone ensured by blast
qed

theorem scene_destroy_grace_delay_witness:
  "fst (createScene 5 demo_slides (Inr None) demo_live_scene) = Inr False
   \<and> sceneElement (snd (createScene 5 demo_slides (Inr None) demo_live_scene))
       = Some (Element ''arcgis-scene'')
   \<and> sceneElement (elapse 599 (snd (createScene 5 demo_slides (Inr None) demo_live_scene)))
       = Some (Element ''arcgis-scene'')
   \<and> sceneElement (elapse 600 (snd (createScene 5 demo_slides (Inr None) demo_live_scene))) = None
   \<and> sceneElement (elapse 5000 (snd (ensureScene (Inr None)
        (elapse 300 (snd (createScene 5 demo_slides (Inr None) demo_live_scene))))))
       = Some (Element ''arcgis-scene'')"
proof -
  have tracked: "destroy_tracked demo_live_scene"
    by (simp add: destroy_tracked_def demo_live_scene_def)
  have elem: "sceneElement demo_live_scene = Some (Element ''arcgis-scene'')"
    and need: "needScene demo_live_scene = Some True"
    by (simp_all add: demo_live_scene_def)
  have away: "\<not> evaluateSceneLifecycle 5 demo_slides"
    by (simp add: evaluateSceneLifecycle_def slides_at_def uses_scene_def slide_maps_def
        demo_slides_def)
  note grace = scene_destroy_grace_delay [OF tracked elem need away,
      where configureMap = "Inr None" and configureMap' = "Inr None", unfolded Let_def]
  have a: "(599::nat) < 600" and b: "(600::nat) \<le> 600" and c: "(300::nat) < 600" by simp_all
  from grace a b c show ?thesis by blast
qed

section \<open>The timers are well kept\<close>

lemma timers_ok_initial: "timers_ok (initial_scene_state t)"
  by (simp add: timers_ok_def destroy_tracked_def initial_scene_state_def)

lemma timers_ok_release:
  "timers_ok s \<Longrightarrow> timers_ok (snd (setTimeout ReleaseSyncTimer delay s))"
  by (auto simp: timers_ok_def destroy_tracked_def setTimeout_def list_all_iff)

lemma timers_ok_cancel: "timers_ok s \<Longrightarrow> timers_ok (cancelScheduledSceneDestroy s)"
  by (auto simp: timers_ok_def destroy_tracked_def cancelScheduledSceneDestroy_def
      clearTimeout_def list_all_iff distinct_map_filter split: option.splits)

lemma timers_ok_schedule: "timers_ok s \<Longrightarrow> timers_ok (scheduleSceneDestroy delay s)"
proof -
  assume ok: "timers_ok s"
  let ?c = "cancelScheduledSceneDestroy s"
  have c: "timers_ok ?c" by (rule timers_ok_cancel [OF ok])
  have none: "\<forall>tm\<in>set (timers ?c). action tm = ReleaseSyncTimer"
    using ok by (intro cancel_removes_destroy) (simp add: timers_ok_def)
  show ?thesis
    using c none
    by (auto simp: timers_ok_def destroy_tracked_def scheduleSceneDestroy_def setTimeout_def
        list_all_iff)
qed

lemma timers_ok_ensureScene: "timers_ok s \<Longrightarrow> timers_ok (snd (ensureScene configureMap s))"
  by (auto simp: ensureScene_def timers_ok_cancel split: sum.splits)
    (simp_all add: timers_ok_def destroy_tracked_def)

lemma timers_ok_syncViews: "timers_ok s \<Longrightarrow> timers_ok (snd (syncViews fromView toView s))"
  by (auto simp: syncViews_def Let_def timers_ok_def destroy_tracked_def setTimeout_def
      list_all_iff split: option.splits)

lemma timers_ok_createScene:
  assumes "timers_ok s"
  shows "timers_ok (snd (createScene index slides configureMap s))"
proof -
  define s1 where "s1 = s\<lparr>needSceneLast := needScene s,
      needScene := Some (evaluateSceneLifecycle index slides)\<rparr>"
  have ok1: "timers_ok s1"
    using assms by (simp add: timers_ok_def destroy_tracked_def s1_def)
  have watcher: "timers_ok (x\<lparr>activeWatcher := b\<rparr>)" if "timers_ok x" for x b
    using that by (simp add: timers_ok_def destroy_tracked_def)
  show ?thesis
    using ok1 timers_ok_ensureScene [OF ok1, of configureMap] timers_ok_schedule [OF ok1, of 600]
    by (auto simp: createScene_def Let_def s1_def [symmetric] watcher split: prod.splits sum.splits)
qed

lemma fire_all_timer:
  "sceneDestroyTimer (foldl fire s tms) =
     (if \<exists>tm\<in>set tms. action tm = DestroySceneTimer then None else sceneDestroyTimer s)
   \<and> timers (foldl fire s tms) = timers s
   \<and> next_timer_id (foldl fire s tms) = next_timer_id s"
proof (induction tms arbitrary: s)
  case Nil
  then show ?case by simp
next
  case (Cons tm tms)
  have step: "sceneDestroyTimer (fire s tm) =
        (if action tm = DestroySceneTimer then None else sceneDestroyTimer s)
      \<and> timers (fire s tm) = timers s \<and> next_timer_id (fire s tm) = next_timer_id s"
    by (cases "action tm") (simp_all add: fire_def destroyScene_def split: option.splits)
  show ?case
    using Cons.IH [of "fire s tm"] step by auto
qed

lemma timers_ok_elapse:
  assumes "timers_ok s"
  shows "timers_ok (elapse d s)"
proof -
  let ?t = "clock s + d"
  let ?ready = "sort_key due (filter (\<lambda>tm. due tm \<le> ?t) (timers s))"
  let ?waiting = "filter (\<lambda>tm. \<not> due tm \<le> ?t) (timers s)"
  let ?f = "foldl fire (s\<lparr>timers := ?waiting\<rparr>) ?ready"
  have tracked: "\<forall>tm\<in>set (timers s). action tm = DestroySceneTimer
      \<longrightarrow> sceneDestroyTimer s = Some (timer_id tm)"
    and dist: "distinct (map timer_id (timers s))"
    and below: "\<forall>tm\<in>set (timers s). timer_id tm < next_timer_id s"
    using assms by (simp_all add: timers_ok_def destroy_tracked_def list_all_iff)
  have f: "sceneDestroyTimer ?f =
        (if \<exists>tm\<in>set ?ready. action tm = DestroySceneTimer then None else sceneDestroyTimer s)"
    and ft: "timers ?f = ?waiting" and fn: "next_timer_id ?f = next_timer_id s"
    using fire_all_timer [of "s\<lparr>timers := ?waiting\<rparr>" ?ready] by auto
  have "sceneDestroyTimer ?f = Some (timer_id tm)"
    if w: "tm \<in> set ?waiting" and a: "action tm = DestroySceneTimer" for tm
  proof (cases "\<exists>x\<in>set ?ready. action x = DestroySceneTimer")
    case False
    with f tracked w a show ?thesis by auto
  next
    case True
    then obtain x where x: "x \<in> set (timers s)" "due x \<le> ?t" "action x = DestroySceneTimer"
      by auto
    from w have tm: "tm \<in> set (timers s)" "\<not> due tm \<le> ?t" by auto
    from tracked x(1,3) have "sceneDestroyTimer s = Some (timer_id x)" by blast
    moreover from tracked tm(1) a have "sceneDestroyTimer s = Some (timer_id tm)" by blast
    ultimately have "timer_id x = timer_id tm" by simp
    with dist x(1) tm(1) have "x = tm"
      by (auto simp: distinct_map dest: inj_onD)
    with x(2) tm(2) show ?thesis by simp
  qed
  then have "destroy_tracked (?f\<lparr>clock := ?t\<rparr>)"
    by (simp add: destroy_tracked_def list_all_iff ft)
  moreover have "distinct (map timer_id (timers (?f\<lparr>clock := ?t\<rparr>)))"
    using dist by (simp add: ft distinct_map_filter)
  moreover have "list_all (\<lambda>tm. timer_id tm < next_timer_id (?f\<lparr>clock := ?t\<rparr>))
      (timers (?f\<lparr>clock := ?t\<rparr>))"
    using below by (simp add: ft fn list_all_iff)
  ultimately show ?thesis
    by (simp add: timers_ok_def elapse_def Let_def)
qed

lemma timers_ok_watcher: "timers_ok s \<Longrightarrow> timers_ok (viewpoint_watcher primary s)"
proof -
  assume ok: "timers_ok s"
  have "timers_ok (s\<lparr>lastSyncTime := clock s\<rparr>)"
    using ok by (simp add: timers_ok_def destroy_tracked_def)
  from timers_ok_syncViews [OF this, of primary "sceneView s"] ok show ?thesis
    by (auto simp: viewpoint_watcher_def timers_ok_def destroy_tracked_def split: prod.splits)
qed

lemma timers_ok_viewReady: "timers_ok s \<Longrightarrow> timers_ok (arcgisViewReadyChange v s)"
  by (simp add: arcgisViewReadyChange_def timers_ok_def destroy_tracked_def split: option.splits)

lemma timers_ok_tracked: "timers_ok s \<Longrightarrow> destroy_tracked s"
  by (simp add: timers_ok_def)

section \<open>Viewpoint synchronisation\<close>

lemma factor_at_60: "scaleConversionFactor demo_map_view = 1 / 2"
  by (simp add: scaleConversionFactor_def center_latitude_def demo_map_view_def cos_60)

text \<open>
  C1, as stated, fails in the direction of the correction: from the 2D map at
  latitude 60 to the 3D scene the factor is the cosine of 60 degrees, \<open>1/2\<close>, and
  the scale 1000 is multiplied by it, giving 500; dividing would give 2000.
\<close>

theorem syncViews_2d_to_3d_multiplies:
  "fst (syncViews (Some demo_map_view) (Some demo_3d_view) demo_idle_scene)
     = Some (demo_3d_view\<lparr>goTo_calls := [(demo_viewpoint\<lparr>scale := 500\<rparr>, False)]\<rparr>)
   \<and> scale demo_viewpoint / scaleConversionFactor demo_map_view = 2000"
proof -
  have types: "view_type demo_map_view = ''2d''" "view_type demo_3d_view = ''3d''"
    by (simp_all add: demo_map_view_def demo_3d_view_def)
  have adj: "adjust_scale demo_map_view demo_3d_view demo_viewpoint = demo_viewpoint\<lparr>scale := 500\<rparr>"
    by (simp add: adjust_scale_def types factor_at_60) (simp add: demo_viewpoint_def)
  have vp: "view_viewpoint demo_map_view = Some demo_viewpoint"
    by (simp add: demo_map_view_def)
  have calls: "goTo_calls demo_3d_view = []"
    by (simp add: demo_3d_view_def)
  have idle: "\<not> isSyncing demo_idle_scene"
    by (simp add: demo_idle_scene_def)
  have "fst (syncViews (Some demo_map_view) (Some demo_3d_view) demo_idle_scene)
      = Some (demo_3d_view\<lparr>goTo_calls := [(demo_viewpoint\<lparr>scale := 500\<rparr>, False)]\<rparr>)"
    by (simp add: syncViews_def Let_def adj vp calls idle)
  then show ?thesis by (simp add: factor_at_60) (simp add: demo_viewpoint_def)
qed

text \<open>
  C1, amended. For two views of which the source has a viewpoint, with no sync in
  progress, \<open>syncViews\<close> clones the source viewpoint, computes
  \<open>cos(latitude_radians)\<close> from the source view's centre, multiplies the scale by
  that factor when the source is 2D and the destination 3D, divides it by that
  factor (which is not zero away from the poles) when the source is 3D and the
  destination 2D, and navigates the destination to the result without animation.
  The busy flag is set and its release is scheduled 100 ms ahead.
\<close>

theorem syncViews_adjusts_scale:
  assumes "\<not> isSyncing s" and "view_viewpoint fromView = Some vp"
    and "view_type fromView = ''3d'' \<and> view_type toView = ''2d''
           \<longrightarrow> cos (center_latitude fromView * pi / 180) \<noteq> 0"
  shows "syncViews (Some fromView) (Some toView) s =
     (Some (toView\<lparr>goTo_calls := goTo_calls toView @
        [(vp\<lparr>scale :=
             (if view_type fromView = ''2d'' \<and> view_type toView = ''3d''
              then scale vp * cos (center_latitude fromView * pi / 180)
              else if view_type fromView = ''3d'' \<and> view_type toView = ''2d''
              then scale vp / cos (center_latitude fromView * pi / 180)
              else scale vp)\<rparr>, False)]\<rparr>),
      s\<lparr>isSyncing := True,
        timers := timers s @
          [\<lparr>timer_id = next_timer_id s, due = clock s + 100, action = ReleaseSyncTimer\<rparr>],
        next_timer_id := Suc (next_timer_id s)\<rparr>)"
  using assms(1,2)
  by (simp add: syncViews_def Let_def adjust_scale_def scaleConversionFactor_def setTimeout_def
      SYNC_DEBOUNCE_MS_def)

theorem syncViews_adjusts_scale_witness:
  "fst (syncViews (Some demo_map_view) (Some demo_3d_view) demo_idle_scene)
     = Some (demo_3d_view\<lparr>goTo_calls := [(demo_viewpoint\<lparr>scale := 500\<rparr>, False)]\<rparr>)
   \<and> fst (syncViews (Some demo_3d_view) (Some demo_map_view) demo_idle_scene)
     = Some (demo_map_view\<lparr>goTo_calls := [(demo_viewpoint\<lparr>scale := 2000\<rparr>, False)]\<rparr>)"
proof -
  have idle: "\<not> isSyncing demo_idle_scene" by (simp add: demo_idle_scene_def)
  have vp2: "view_viewpoint demo_map_view = Some demo_viewpoint"
    and vp3: "view_viewpoint demo_3d_view = Some demo_viewpoint"
    by (simp_all add: demo_map_view_def demo_3d_view_def)
  have half2: "cos (center_latitude demo_map_view * pi / 180) = 1 / 2"
    and half3: "cos (center_latitude demo_3d_view * pi / 180) = 1 / 2"
    by (simp_all add: center_latitude_def demo_map_view_def demo_3d_view_def cos_60)
  have ok2: "view_type demo_map_view = ''3d'' \<and> view_type demo_3d_view = ''2d''
           \<longrightarrow> cos (center_latitude demo_map_view * pi / 180) \<noteq> 0"
    and ok3: "view_type demo_3d_view = ''3d'' \<and> view_type demo_map_view = ''2d''
           \<longrightarrow> cos (center_latitude demo_3d_view * pi / 180) \<noteq> 0"
    by (simp_all add: half2 half3)
  have t2: "view_type demo_map_view = ''2d''" and t3: "view_type demo_3d_view = ''3d''"
    and g2: "goTo_calls demo_map_view = []" and g3: "goTo_calls demo_3d_view = []"
    and sc: "scale demo_viewpoint = 1000"
    by (simp_all add: demo_map_view_def demo_3d_view_def demo_viewpoint_def)
  show ?thesis
    using syncViews_adjusts_scale [OF idle vp2 ok2] syncViews_adjusts_scale [OF idle vp3 ok3]
    by (simp add: half2 half3 t2 t3 g2 g3 sc)
qed

section \<open>Crossfade\<close>

lemma containers_crossfade_sync [simp]:
  "containers (crossfade_sync fromMapIndex toMapIndex t m) = containers m"
  by (simp add: crossfade_sync_def Let_def split: prod.splits)





end
